theory Spec2Isabelle
  imports Complex_Main
begin

section \<open>Python strings\<close>

text \<open>
  Strings are character lists. The operations below are the ones the analysed code uses:
  \<^verbatim>\<open>str.startswith\<close>, the substring test \<^verbatim>\<open>p in s\<close>, \<^verbatim>\<open>str.count\<close>,
  \<^verbatim>\<open>str.lower\<close> and \<^verbatim>\<open>str.strip\<close>. Case folding and white space are the ASCII ones.
\<close>

definition startswith :: "string \<Rightarrow> string \<Rightarrow> bool" where
  "startswith s p = (take (length p) s = p)"

fun contains :: "string \<Rightarrow> string \<Rightarrow> bool" where
  "contains [] p = (p = [])"
| "contains (c # cs) p = (startswith (c # cs) p \<or> contains cs p)"

function count_sub :: "string \<Rightarrow> string \<Rightarrow> nat" where
  "count_sub s p =
     (if p = [] then length s + 1
      else if s = [] then 0
      else if startswith s p then 1 + count_sub (drop (length p) s) p
      else count_sub (tl s) p)"
  by pat_completeness auto
termination
  by (relation "measure (\<lambda>(s, p). length s)") auto

definition lower_char :: "char \<Rightarrow> char" where
  "lower_char c =
     (case map_of (zip ''ABCDEFGHIJKLMNOPQRSTUVWXYZ'' ''abcdefghijklmnopqrstuvwxyz'') c of
        Some d \<Rightarrow> d
      | None \<Rightarrow> c)"

definition lower :: "string \<Rightarrow> string" where
  "lower s = map lower_char s"

definition is_space :: "char \<Rightarrow> bool" where
  "is_space c = (c \<in> set [CHR '' '', CHR 0x09, CHR 0x0A, CHR 0x0B, CHR 0x0C, CHR 0x0D])"

definition strip :: "string \<Rightarrow> string" where
  "strip s = rev (dropWhile is_space (rev (dropWhile is_space s)))"

definition any_in :: "string list \<Rightarrow> string \<Rightarrow> bool" where
  "any_in words s = list_ex (\<lambda>w. contains s w) words"

section \<open>Exceptions\<close>

datatype py_error = SyntaxError | AttributeError | UnboundLocalError | ZeroDivisionError

text \<open>Float division \<^verbatim>\<open>a / b\<close> raises on a zero divisor.\<close>

definition py_truediv :: "real \<Rightarrow> real \<Rightarrow> py_error + real" where
  "py_truediv a b = (if b = 0 then Inl ZeroDivisionError else Inr (a / b))"

section \<open>Test quality validator: data\<close>

text \<open>
  The dataclasses of \<^verbatim>\<open>test_quality_validator.py\<close>. Python floats are idealised as reals.
  A \<^verbatim>\<open>TestIssue\<close> keeps the fields the analysis decides on; the two message texts
  (description, suggestion) are human-readable strings that nothing reads back.
\<close>

record QualityMetrics =
  business_logic_coverage :: real
  error_scenario_coverage :: real
  mock_isolation_score :: real
  realistic_data_score :: real
  documentation_score :: real
  maintenance_score :: real
  integration_coverage :: real
  overall_quality_score :: real

definition QualityMetrics0 :: QualityMetrics where
  "QualityMetrics0 =
     \<lparr>business_logic_coverage = 0, error_scenario_coverage = 0, mock_isolation_score = 0,
      realistic_data_score = 0, documentation_score = 0, maintenance_score = 0,
      integration_coverage = 0, overall_quality_score = 0\<rparr>"

record TestIssue =
  file_path :: string
  line_number :: int
  issue_type :: string
  severity :: string

record TestQualityConfig =
  min_coverage_threshold :: real
  min_business_logic_threshold :: real
  min_error_scenario_threshold :: real
  business_logic_weight :: real
  error_scenario_weight :: real
  mock_isolation_weight :: real
  realistic_data_weight :: real
  documentation_weight :: real
  maintenance_weight :: real
  min_test_length :: int
  max_test_length :: int
  min_assertions_per_test :: int
  max_mock_objects_per_test :: int

definition TestQualityConfig0 :: TestQualityConfig where
  "TestQualityConfig0 =
     \<lparr>min_coverage_threshold = 80, min_business_logic_threshold = 70,
      min_error_scenario_threshold = 60,
      business_logic_weight = 25 / 100, error_scenario_weight = 20 / 100,
      mock_isolation_weight = 15 / 100, realistic_data_weight = 15 / 100,
      documentation_weight = 15 / 100, maintenance_weight = 10 / 100,
      min_test_length = 10, max_test_length = 200,
      min_assertions_per_test = 1, max_mock_objects_per_test = 5\<rparr>"

section \<open>Syntax trees\<close>

text \<open>
  Expressions as far as the two modules inspect them: the isinstance chains distinguish
  \<^verbatim>\<open>ast.Name\<close>, \<^verbatim>\<open>ast.Attribute\<close>, \<^verbatim>\<open>ast.Subscript\<close>, \<^verbatim>\<open>ast.Constant\<close>
  and \<^verbatim>\<open>ast.Call\<close>; every other node kind is \<open>OtherExpr\<close>. A subscript's slice is an
  expression (Python 3.9 and later).
\<close>

text \<open>
  The value of an \<^verbatim>\<open>ast.Constant\<close>, given by the two texts the code takes of it:
  \<^verbatim>\<open>str(node.value)\<close> and \<^verbatim>\<open>repr(node.value)\<close>.
\<close>

datatype const = PyConst (const_str: string) (const_repr: string)

datatype expr =
    Name string
  | Attribute expr string
  | Subscript expr expr
  | Constant const
  | Call expr
  | OtherExpr

text \<open>The kinds of node that \<^verbatim>\<open>ast.walk(func)\<close> yields, as far as the structure pass tells them apart.\<close>

datatype node_kind = KAssert | KCall | KOther

text \<open>
  An \<^verbatim>\<open>ast.FunctionDef\<close> node. \<open>args\<close> is \<^verbatim>\<open>node.args.args\<close> (argument name and
  annotation), \<open>walk\<close> the node kinds of \<^verbatim>\<open>ast.walk(node)\<close>, \<open>segment\<close> the result of
  \<^verbatim>\<open>ast.get_source_segment\<close> on the node, \<open>get_docstring\<close> the result of
  \<^verbatim>\<open>ast.get_docstring\<close>, and \<open>end_lineno\<close> is \<open>None\<close> when the node has no such attribute.
  \<open>docstring_attr\<close> is the outcome of the attribute access \<^verbatim>\<open>node.docstring\<close>:
  \<open>None\<close> when the node has no attribute of that name (then the access raises
  \<^verbatim>\<open>AttributeError\<close>), \<open>Some v\<close> when it has, \<open>v\<close> being Python's \<^verbatim>\<open>None\<close> or a string.
  The fields of a \<^verbatim>\<open>FunctionDef\<close> built by \<^verbatim>\<open>ast.parse\<close> are name, args, body,
  decorator_list, returns, type_comment and the four position attributes; it carries no
  \<^verbatim>\<open>docstring\<close> attribute.
\<close>

record funcdef =
  name :: string
  args :: "(string \<times> expr option) list"
  returns :: "expr option"
  decorator_list :: "expr list"
  lineno :: int
  end_lineno :: "int option"
  walk :: "node_kind list"
  segment :: "string option"
  get_docstring :: "string option"
  docstring_attr :: "string option option"

definition is_test :: "funcdef \<Rightarrow> bool" where
  "is_test f = startswith (name f) ''test_''"

definition func_lines :: "funcdef \<Rightarrow> int" where
  "func_lines f = (case end_lineno f of Some e \<Rightarrow> e - lineno f | None \<Rightarrow> 0)"

definition func_content :: "funcdef \<Rightarrow> string" where
  "func_content f = (case segment f of Some s \<Rightarrow> s | None \<Rightarrow> [])"

definition total_tests :: "funcdef list \<Rightarrow> nat" where
  "total_tests fs = length (filter is_test fs)"

text \<open>
  The tail of every scoring pass:
  \<^verbatim>\<open>if total_tests > 0: score = (k / total_tests) * 100 else: score = 0.0\<close>.
\<close>

definition percentage :: "nat \<Rightarrow> nat \<Rightarrow> py_error + real" where
  "percentage k n =
     (if n > 0
      then (case py_truediv (real k) (real n) of Inl e \<Rightarrow> Inl e | Inr q \<Rightarrow> Inr (q * 100))
      else Inr 0)"

type_synonym pass_result = "py_error option \<times> QualityMetrics \<times> TestIssue list"

section \<open>Test quality validator: the passes of TestAnalyzer\<close>

text \<open>
  Every pass receives the \<^verbatim>\<open>FunctionDef\<close> nodes of \<^verbatim>\<open>ast.walk(tree)\<close> and mutates the
  shared \<^verbatim>\<open>metrics\<close> object and \<^verbatim>\<open>issues\<close> list; here the pair is passed and returned,
  together with the exception the pass raised, if any. What a pass appended before it
  raised stays in the list.
\<close>

fun structure_loop :: "TestQualityConfig \<Rightarrow> string \<Rightarrow> funcdef list \<Rightarrow> TestIssue list \<Rightarrow> TestIssue list" where
  "structure_loop cfg path [] issues = issues"
| "structure_loop cfg path (f # fs) issues =
     (if \<not> is_test f then structure_loop cfg path fs issues
      else
        let issues1 =
              (if func_lines f < min_test_length cfg
               then issues @ [\<lparr>file_path = path, line_number = lineno f,
                                issue_type = ''test_too_short'', severity = ''medium''\<rparr>]
               else issues);
            assertions = filter (\<lambda>k. k = KAssert \<or> k = KCall) (walk f);
            assertion_count = length (filter (\<lambda>k. k = KAssert) assertions);
            issues2 =
              (if int assertion_count < min_assertions_per_test cfg
               then issues1 @ [\<lparr>file_path = path, line_number = lineno f,
                                 issue_type = ''insufficient_assertions'', severity = ''medium''\<rparr>]
               else issues1)
        in structure_loop cfg path fs issues2)"

definition analyze_test_structure ::
  "TestQualityConfig \<Rightarrow> string \<Rightarrow> funcdef list \<Rightarrow> QualityMetrics \<times> TestIssue list
     \<Rightarrow> pass_result" where
  "analyze_test_structure cfg path fs st = (None, fst st, structure_loop cfg path fs (snd st))"

definition business_logic_indicators :: "string list" where
  "business_logic_indicators =
     [''calculate_'', ''compute_'', ''process_'', ''handle_'', ''validate_'',
      ''transform_'', ''convert_'', ''apply_'', ''execute_'', ''perform_'']"

fun business_logic_loop :: "funcdef list \<Rightarrow> nat \<Rightarrow> nat" where
  "business_logic_loop [] business_logic_tests = business_logic_tests"
| "business_logic_loop (f # fs) business_logic_tests =
     (if \<not> is_test f then business_logic_loop fs business_logic_tests
      else if any_in business_logic_indicators (lower (func_content f))
           then business_logic_loop fs (business_logic_tests + 1)
           else business_logic_loop fs business_logic_tests)"

definition analyze_business_logic_coverage ::
  "TestQualityConfig \<Rightarrow> string \<Rightarrow> funcdef list \<Rightarrow> QualityMetrics \<times> TestIssue list
     \<Rightarrow> pass_result" where
  "analyze_business_logic_coverage cfg path fs st =
     (case percentage (business_logic_loop fs 0) (total_tests fs) of
        Inl e \<Rightarrow> (Some e, fst st, snd st)
      | Inr v \<Rightarrow>
          let metrics = (fst st)\<lparr>business_logic_coverage := v\<rparr>
          in if business_logic_coverage metrics < min_business_logic_threshold cfg
             then (None, metrics, snd st @ [\<lparr>file_path = path, line_number = 1,
                      issue_type = ''low_business_logic_coverage'', severity = ''high''\<rparr>])
             else (None, metrics, snd st))"

definition error_indicators :: "string list" where
  "error_indicators =
     [''raises'', ''exception'', ''error'', ''fail'', ''invalid'', ''malformed'',
      ''timeout'', ''network'', ''permission'', ''authentication'', ''authorization'']"

fun error_loop :: "funcdef list \<Rightarrow> nat \<Rightarrow> nat" where
  "error_loop [] error_tests = error_tests"
| "error_loop (f # fs) error_tests =
     (if \<not> is_test f then error_loop fs error_tests
      else
        let has_error_test = any_in error_indicators (lower (func_content f));
            has_with_raises = (contains (func_content f) ''with raises''
                               \<or> contains (func_content f) ''pytest.raises'')
        in if has_error_test \<or> has_with_raises then error_loop fs (error_tests + 1)
           else error_loop fs error_tests)"

definition analyze_error_scenarios ::
  "TestQualityConfig \<Rightarrow> string \<Rightarrow> funcdef list \<Rightarrow> QualityMetrics \<times> TestIssue list
     \<Rightarrow> pass_result" where
  "analyze_error_scenarios cfg path fs st =
     (case percentage (error_loop fs 0) (total_tests fs) of
        Inl e \<Rightarrow> (Some e, fst st, snd st)
      | Inr v \<Rightarrow> (None, (fst st)\<lparr>error_scenario_coverage := v\<rparr>, snd st))"

definition mock_indicators :: "string list" where
  "mock_indicators = [''mock'', ''patch'', ''MagicMock'', ''AsyncMock'', ''stub'']"

definition mock_count :: "funcdef \<Rightarrow> int" where
  "mock_count f = int (sum_list (map (count_sub (lower (func_content f))) mock_indicators))"

fun mock_loop :: "TestQualityConfig \<Rightarrow> string \<Rightarrow> funcdef list \<Rightarrow> nat \<Rightarrow> TestIssue list \<Rightarrow> nat \<times> TestIssue list" where
  "mock_loop cfg path [] isolated_tests issues = (isolated_tests, issues)"
| "mock_loop cfg path (f # fs) isolated_tests issues =
     (if \<not> is_test f then mock_loop cfg path fs isolated_tests issues
      else if 0 < mock_count f \<and> mock_count f \<le> max_mock_objects_per_test cfg
           then mock_loop cfg path fs (isolated_tests + 1) issues
      else if mock_count f > max_mock_objects_per_test cfg
           then mock_loop cfg path fs isolated_tests
                  (issues @ [\<lparr>file_path = path, line_number = lineno f,
                               issue_type = ''too_many_mocks'', severity = ''medium''\<rparr>])
      else mock_loop cfg path fs isolated_tests issues)"

definition analyze_mock_usage ::
  "TestQualityConfig \<Rightarrow> string \<Rightarrow> funcdef list \<Rightarrow> QualityMetrics \<times> TestIssue list
     \<Rightarrow> pass_result" where
  "analyze_mock_usage cfg path fs st =
     (case mock_loop cfg path fs 0 (snd st) of
        (isolated_tests, issues) \<Rightarrow>
          (case percentage isolated_tests (total_tests fs) of
             Inl e \<Rightarrow> (Some e, fst st, issues)
           | Inr v \<Rightarrow> (None, (fst st)\<lparr>mock_isolation_score := v\<rparr>, issues)))"

text \<open>
  The documentation pass reads \<^verbatim>\<open>func.docstring\<close>. On a node without that attribute the
  access raises; the issues appended so far stay in the shared list.
\<close>

definition doc_keywords :: "string list" where
  "doc_keywords = [''test'', ''verify'', ''check'', ''ensure'']"

definition well_documented :: "string option \<Rightarrow> bool" where
  "well_documented d =
     (case d of
        None \<Rightarrow> False
      | Some s \<Rightarrow> s \<noteq> [] \<and> length (strip s) > 20 \<and> any_in doc_keywords (lower s))"

fun documentation_loop :: "string \<Rightarrow> funcdef list \<Rightarrow> nat \<Rightarrow> TestIssue list
     \<Rightarrow> py_error option \<times> nat \<times> TestIssue list" where
  "documentation_loop path [] documented_tests issues = (None, documented_tests, issues)"
| "documentation_loop path (f # fs) documented_tests issues =
     (if \<not> is_test f then documentation_loop path fs documented_tests issues
      else case docstring_attr f of
        None \<Rightarrow> (Some AttributeError, documented_tests, issues)
      | Some d \<Rightarrow>
          if well_documented d
          then documentation_loop path fs (documented_tests + 1) issues
          else documentation_loop path fs documented_tests
                 (issues @ [\<lparr>file_path = path, line_number = lineno f,
                              issue_type = ''missing_documentation'', severity = ''low''\<rparr>]))"

definition analyze_documentation ::
  "TestQualityConfig \<Rightarrow> string \<Rightarrow> funcdef list \<Rightarrow> QualityMetrics \<times> TestIssue list
     \<Rightarrow> pass_result" where
  "analyze_documentation cfg path fs st =
     (case documentation_loop path fs 0 (snd st) of
        (Some e, documented_tests, issues) \<Rightarrow> (Some e, fst st, issues)
      | (None, documented_tests, issues) \<Rightarrow>
          (case percentage documented_tests (total_tests fs) of
             Inl e \<Rightarrow> (Some e, fst st, issues)
           | Inr v \<Rightarrow> (None, (fst st)\<lparr>documentation_score := v\<rparr>, issues)))"

fun maintainability_loop :: "TestQualityConfig \<Rightarrow> string \<Rightarrow> funcdef list \<Rightarrow> nat \<Rightarrow> TestIssue list
     \<Rightarrow> nat \<times> TestIssue list" where
  "maintainability_loop cfg path [] maintainable_tests issues = (maintainable_tests, issues)"
| "maintainability_loop cfg path (f # fs) maintainable_tests issues =
     (if \<not> is_test f then maintainability_loop cfg path fs maintainable_tests issues
      else if min_test_length cfg \<le> func_lines f \<and> func_lines f \<le> max_test_length cfg
              \<and> name f \<noteq> [] \<and> contains (name f) ''_''
           then maintainability_loop cfg path fs (maintainable_tests + 1) issues
      else if func_lines f > max_test_length cfg
           then maintainability_loop cfg path fs maintainable_tests
                  (issues @ [\<lparr>file_path = path, line_number = lineno f,
                               issue_type = ''test_too_long'', severity = ''medium''\<rparr>])
      else maintainability_loop cfg path fs maintainable_tests issues)"

definition analyze_maintainability ::
  "TestQualityConfig \<Rightarrow> string \<Rightarrow> funcdef list \<Rightarrow> QualityMetrics \<times> TestIssue list
     \<Rightarrow> pass_result" where
  "analyze_maintainability cfg path fs st =
     (case maintainability_loop cfg path fs 0 (snd st) of
        (maintainable_tests, issues) \<Rightarrow>
          (case percentage maintainable_tests (total_tests fs) of
             Inl e \<Rightarrow> (Some e, fst st, issues)
           | Inr v \<Rightarrow> (None, (fst st)\<lparr>maintenance_score := v\<rparr>, issues)))"

text \<open>
  The weighted sum runs over the six entries of the \<^verbatim>\<open>weights\<close> dictionary, in order.
  The reals of the model are the finite floats, computed exactly: a weight or metric that
  is infinite or NaN, and a sum that overflows, are outside the model.
\<close>

definition weighted_metrics :: "TestQualityConfig \<Rightarrow> QualityMetrics \<Rightarrow> (real \<times> real) list" where
  "weighted_metrics cfg m =
     [(business_logic_coverage m, business_logic_weight cfg),
      (error_scenario_coverage m, error_scenario_weight cfg),
      (mock_isolation_score m, mock_isolation_weight cfg),
      (realistic_data_score m, realistic_data_weight cfg),
      (documentation_score m, documentation_weight cfg),
      (maintenance_score m, maintenance_weight cfg)]"

definition calculate_overall_score :: "TestQualityConfig \<Rightarrow> QualityMetrics \<Rightarrow> real" where
  "calculate_overall_score cfg m =
     min (foldl (\<lambda>score (metric_value, weight). score + metric_value * weight) 0
            (weighted_metrics cfg m)) 100"

section \<open>Test quality validator: analyze_test_file and analyze_project\<close>

text \<open>
  A test file is its path and the outcome of reading and parsing it: the exception of
  \<^verbatim>\<open>ast.parse\<close>, or the \<^verbatim>\<open>FunctionDef\<close> nodes of the tree in the order of \<^verbatim>\<open>ast.walk\<close>.

  The local variable \<^verbatim>\<open>issues\<close> of \<^verbatim>\<open>analyze_test_file\<close> is bound only after the parse;
  the exception handler appends to it. \<open>except_handler\<close> takes the variable as an option,
  \<open>None\<close> while it is unbound: appending then raises \<^verbatim>\<open>UnboundLocalError\<close> out of the handler.
\<close>

record test_file =
  tf_path :: string
  tf_parse :: "py_error + funcdef list"

definition analysis_error_issue :: "string \<Rightarrow> TestIssue" where
  "analysis_error_issue path =
     \<lparr>file_path = path, line_number = 1, issue_type = ''analysis_error'', severity = ''high''\<rparr>"

definition except_handler :: "string \<Rightarrow> TestIssue list option
     \<Rightarrow> py_error + QualityMetrics \<times> TestIssue list" where
  "except_handler path issues_var =
     (case issues_var of
        None \<Rightarrow> Inl UnboundLocalError
      | Some issues \<Rightarrow> Inr (QualityMetrics0, issues @ [analysis_error_issue path]))"

definition then_pass :: "pass_result \<Rightarrow> (QualityMetrics \<times> TestIssue list \<Rightarrow> pass_result)
     \<Rightarrow> pass_result" where
  "then_pass r p = (case r of (Some e, st) \<Rightarrow> (Some e, st) | (None, st) \<Rightarrow> p st)"

definition run_passes :: "TestQualityConfig \<Rightarrow> string \<Rightarrow> funcdef list \<Rightarrow> pass_result" where
  "run_passes cfg path tree =
     then_pass (then_pass (then_pass (then_pass (then_pass
       (analyze_test_structure cfg path tree (QualityMetrics0, []))
       (analyze_business_logic_coverage cfg path tree))
       (analyze_error_scenarios cfg path tree))
       (analyze_mock_usage cfg path tree))
       (analyze_documentation cfg path tree))
       (analyze_maintainability cfg path tree)"

definition analyze_test_file :: "TestQualityConfig \<Rightarrow> test_file
     \<Rightarrow> py_error + QualityMetrics \<times> TestIssue list" where
  "analyze_test_file cfg file =
     (case tf_parse file of
        Inl e \<Rightarrow> except_handler (tf_path file) None
      | Inr tree \<Rightarrow>
          (case run_passes cfg (tf_path file) tree of
             (Some e, metrics, issues) \<Rightarrow> except_handler (tf_path file) (Some issues)
           | (None, metrics, issues) \<Rightarrow>
               Inr (metrics\<lparr>overall_quality_score := calculate_overall_score cfg metrics\<rparr>,
                    issues)))"

fun totals_loop :: "QualityMetrics list \<Rightarrow> QualityMetrics \<Rightarrow> QualityMetrics" where
  "totals_loop [] totals = totals"
| "totals_loop (metric # rest) totals =
     totals_loop rest
       (totals\<lparr>business_logic_coverage := business_logic_coverage totals + business_logic_coverage metric,
               error_scenario_coverage := error_scenario_coverage totals + error_scenario_coverage metric,
               mock_isolation_score := mock_isolation_score totals + mock_isolation_score metric,
               realistic_data_score := realistic_data_score totals + realistic_data_score metric,
               documentation_score := documentation_score totals + documentation_score metric,
               maintenance_score := maintenance_score totals + maintenance_score metric,
               overall_quality_score := overall_quality_score totals + overall_quality_score metric\<rparr>)"

definition calculate_project_metrics :: "QualityMetrics list \<Rightarrow> QualityMetrics" where
  "calculate_project_metrics file_metrics =
     (if file_metrics = [] then QualityMetrics0
      else
        let totals = totals_loop file_metrics QualityMetrics0;
            count = real (length file_metrics)
        in \<lparr>business_logic_coverage = business_logic_coverage totals / count,
            error_scenario_coverage = error_scenario_coverage totals / count,
            mock_isolation_score = mock_isolation_score totals / count,
            realistic_data_score = realistic_data_score totals / count,
            documentation_score = documentation_score totals / count,
            maintenance_score = maintenance_score totals / count,
            integration_coverage = 0,
            overall_quality_score = overall_quality_score totals / count\<rparr>)"

definition calculate_quality_grade :: "real \<Rightarrow> string" where
  "calculate_quality_grade score =
     (if score \<ge> 90 then ''A''
      else if score \<ge> 80 then ''B''
      else if score \<ge> 70 then ''C''
      else if score \<ge> 60 then ''D''
      else ''F'')"

text \<open>
  \<^verbatim>\<open>analyze_project\<close>, from the sorted list of discovered files on. The loop calls
  \<^verbatim>\<open>analyze_test_file\<close> with no exception handler of its own, so an exception leaving
  that call leaves \<^verbatim>\<open>analyze_project\<close>. Of the report, the counts, the metrics, the issues
  and the grade are kept.
\<close>

fun analyze_files :: "TestQualityConfig \<Rightarrow> test_file list \<Rightarrow> QualityMetrics list \<Rightarrow> TestIssue list
     \<Rightarrow> py_error + QualityMetrics list \<times> TestIssue list" where
  "analyze_files cfg [] all_metrics all_issues = Inr (all_metrics, all_issues)"
| "analyze_files cfg (t # ts) all_metrics all_issues =
     (case analyze_test_file cfg t of
        Inl e \<Rightarrow> Inl e
      | Inr (metrics, issues) \<Rightarrow> analyze_files cfg ts (all_metrics @ [metrics]) (all_issues @ issues))"

record report =
  test_files_analyzed :: nat
  project_metrics :: QualityMetrics
  file_metrics :: "QualityMetrics list"
  report_issues :: "TestIssue list"
  quality_grade :: string

datatype project_result = NoTestFiles | Report report

definition analyze_project :: "TestQualityConfig \<Rightarrow> test_file list \<Rightarrow> py_error + project_result" where
  "analyze_project cfg test_files =
     (if test_files = [] then Inr NoTestFiles
      else case analyze_files cfg test_files [] [] of
        Inl e \<Rightarrow> Inl e
      | Inr (all_metrics, all_issues) \<Rightarrow>
          let pm = calculate_project_metrics all_metrics
          in Inr (Report \<lparr>test_files_analyzed = length test_files,
                          project_metrics = pm,
                          file_metrics = all_metrics,
                          report_issues = all_issues,
                          quality_grade = calculate_quality_grade (overall_quality_score pm)\<rparr>))"

section \<open>Test creation framework: module analysis\<close>

definition nl :: string where
  "nl = [CHR 0x0A]"

fun join :: "string \<Rightarrow> string list \<Rightarrow> string" where
  "join sep [] = []"
| "join sep [x] = x"
| "join sep (x # y # ys) = x @ sep @ join sep (y # ys)"

definition is_lower :: "char \<Rightarrow> bool" where
  "is_lower c = (c \<in> set ''abcdefghijklmnopqrstuvwxyz'')"

definition is_upper :: "char \<Rightarrow> bool" where
  "is_upper c = (c \<in> set ''ABCDEFGHIJKLMNOPQRSTUVWXYZ'')"

text \<open>\<^verbatim>\<open>str.isupper\<close>: no lower-case letter and at least one upper-case letter.\<close>

definition isupper :: "string \<Rightarrow> bool" where
  "isupper s = (\<not> list_ex is_lower s \<and> list_ex is_upper s)"

text \<open>
  Statements of a module or class body, as far as \<^verbatim>\<open>ModuleAnalyzer\<close> tells them apart. A
  class definition carries its name, its bases, its body and the result of
  \<^verbatim>\<open>ast.get_docstring\<close>; an assignment its targets and its value.
\<close>

datatype import_alias = Alias (alias_name: string) (asname: "string option")

datatype stmt =
    Import "import_alias list"
  | ImportFrom "string option" "import_alias list"
  | FunctionDef funcdef
  | ClassDef string "expr list" "stmt list" "string option"
  | Assign "expr list" expr
  | OtherStmt

text \<open>
  The dictionaries that \<^verbatim>\<open>ModuleAnalyzer\<close> builds. A value that is Python's \<^verbatim>\<open>None\<close> is
  \<open>None\<close>; the key \<^verbatim>\<open>is_dunder\<close> exists for methods only, the key \<^verbatim>\<open>error\<close> in the
  degraded module model only, where it holds the text of the exception.
\<close>

record param_info =
  pi_name :: string
  pi_type :: "string option"
  pi_default :: "string option"

record func_info =
  fi_name :: string
  fi_is_private :: bool
  fi_parameters :: "param_info list"
  fi_return_type :: "string option"
  fi_docstring :: string
  fi_decorators :: "string list"
  fi_is_dunder :: "bool option"

record class_info =
  ci_name :: string
  ci_is_private :: bool
  ci_bases :: "string list"
  ci_methods :: "func_info list"
  ci_properties :: "(string \<times> string) list"
  ci_docstring :: string
  ci_decorators :: "string list"

datatype import_info =
    ImportInfo string "string option"
  | FromImportInfo string string "string option"

record module_info =
  mi_name :: string
  mi_import_path :: string
  mi_error :: "py_error option"
  mi_functions :: "func_info list"
  mi_classes :: "class_info list"
  mi_imports :: "import_info list"
  mi_constants :: "(string \<times> string) list"

fun get_node_type :: "expr \<Rightarrow> string" where
  "get_node_type (Name i) = i"
| "get_node_type (Attribute v a) = get_node_type v @ ''.'' @ a"
| "get_node_type (Subscript v sl) = get_node_type v @ ''['' @ get_node_type sl @ '']''"
| "get_node_type (Constant c) = const_str c"
| "get_node_type (Call f) = ''Any''"
| "get_node_type OtherExpr = ''Any''"

fun get_node_value :: "expr \<Rightarrow> string" where
  "get_node_value (Constant c) = const_repr c"
| "get_node_value (Name i) = i"
| "get_node_value (Call f) = get_node_value f @ ''(...)''"
| "get_node_value (Attribute v a) = ''...''"
| "get_node_value (Subscript v sl) = ''...''"
| "get_node_value OtherExpr = ''...''"

fun parameters_loop :: "(string \<times> expr option) list \<Rightarrow> param_info list \<Rightarrow> param_info list" where
  "parameters_loop [] parameters = parameters"
| "parameters_loop ((arg, annotation) # rest) parameters =
     (let param_info = \<lparr>pi_name = arg, pi_type = None, pi_default = None\<rparr>;
          param_info1 = (case annotation of
                           Some a \<Rightarrow> param_info\<lparr>pi_type := Some (get_node_type a)\<rparr>
                         | None \<Rightarrow> param_info)
      in parameters_loop rest (parameters @ [param_info1]))"

fun decorators_loop :: "expr list \<Rightarrow> string list \<Rightarrow> string list" where
  "decorators_loop [] decorators = decorators"
| "decorators_loop (Name i # rest) decorators = decorators_loop rest (decorators @ [i])"
| "decorators_loop (d # rest) decorators = decorators_loop rest decorators"

definition analyze_function :: "funcdef \<Rightarrow> func_info" where
  "analyze_function node =
     \<lparr>fi_name = name node,
      fi_is_private = startswith (name node) ''_'',
      fi_parameters = parameters_loop (args node) [],
      fi_return_type = (case returns node of Some r \<Rightarrow> Some (get_node_type r) | None \<Rightarrow> None),
      fi_docstring = (case get_docstring node of Some d \<Rightarrow> d | None \<Rightarrow> []),
      fi_decorators = decorators_loop (decorator_list node) [],
      fi_is_dunder = None\<rparr>"

text \<open>
  The class-property loop reads \<^verbatim>\<open>target.name\<close> of a target that is an \<^verbatim>\<open>ast.Name\<close>.
  The fields of \<^verbatim>\<open>ast.Name\<close> are \<^verbatim>\<open>id\<close> and \<^verbatim>\<open>ctx\<close>; the node has no attribute
  \<^verbatim>\<open>name\<close>, so the access raises \<^verbatim>\<open>AttributeError\<close>.
\<close>

definition name_attr :: "expr \<Rightarrow> py_error + string" where
  "name_attr target = Inl AttributeError"

fun is_Name :: "expr \<Rightarrow> bool" where
  "is_Name (Name i) = True"
| "is_Name e = False"

fun properties_loop :: "expr list \<Rightarrow> expr \<Rightarrow> (string \<times> string) list
     \<Rightarrow> py_error + (string \<times> string) list" where
  "properties_loop [] v properties = Inr properties"
| "properties_loop (target # rest) v properties =
     (if is_Name target
      then (case name_attr target of
              Inl e \<Rightarrow> Inl e
            | Inr n \<Rightarrow>
                if \<not> startswith n ''_''
                then properties_loop rest v (properties @ [(n, get_node_value v)])
                else properties_loop rest v properties)
      else properties_loop rest v properties)"

fun class_body_loop :: "stmt list \<Rightarrow> func_info list \<Rightarrow> (string \<times> string) list
     \<Rightarrow> py_error + func_info list \<times> (string \<times> string) list" where
  "class_body_loop [] methods properties = Inr (methods, properties)"
| "class_body_loop (FunctionDef item # rest) methods properties =
     class_body_loop rest
       (methods @ [(analyze_function item)\<lparr>fi_is_dunder := Some (startswith (name item) ''__'')\<rparr>])
       properties"
| "class_body_loop (Assign targets v # rest) methods properties =
     (case properties_loop targets v properties of
        Inl e \<Rightarrow> Inl e
      | Inr properties1 \<Rightarrow> class_body_loop rest methods properties1)"
| "class_body_loop (item # rest) methods properties = class_body_loop rest methods properties"

fun bases_loop :: "expr list \<Rightarrow> string list \<Rightarrow> string list" where
  "bases_loop [] bases = bases"
| "bases_loop (Name i # rest) bases = bases_loop rest (bases @ [i])"
| "bases_loop (b # rest) bases = bases_loop rest bases"

definition analyze_class :: "string \<Rightarrow> expr list \<Rightarrow> stmt list \<Rightarrow> string option
     \<Rightarrow> py_error + class_info" where
  "analyze_class cname bases body doc =
     (case class_body_loop body [] [] of
        Inl e \<Rightarrow> Inl e
      | Inr (methods, properties) \<Rightarrow>
          Inr \<lparr>ci_name = cname,
               ci_is_private = startswith cname ''_'',
               ci_bases = bases_loop bases [],
               ci_methods = methods,
               ci_properties = properties,
               ci_docstring = (case doc of Some d \<Rightarrow> d | None \<Rightarrow> []),
               ci_decorators = []\<rparr>)"

fun import_names :: "import_alias list \<Rightarrow> import_info list" where
  "import_names [] = []"
| "import_names (a # rest) = ImportInfo (alias_name a) (asname a) # import_names rest"

fun from_import_names :: "string \<Rightarrow> import_alias list \<Rightarrow> import_info list" where
  "from_import_names module_name [] = []"
| "from_import_names module_name (a # rest) =
     FromImportInfo module_name (alias_name a) (asname a) # from_import_names module_name rest"

fun imports_loop :: "stmt list \<Rightarrow> import_info list \<Rightarrow> import_info list" where
  "imports_loop [] imports = imports"
| "imports_loop (Import names # rest) imports = imports_loop rest (imports @ import_names names)"
| "imports_loop (ImportFrom m names # rest) imports =
     imports_loop rest
       (imports @ from_import_names (case m of Some module_name \<Rightarrow> module_name | None \<Rightarrow> []) names)"
| "imports_loop (node # rest) imports = imports_loop rest imports"

fun constants_loop :: "expr list \<Rightarrow> expr \<Rightarrow> (string \<times> string) list \<Rightarrow> (string \<times> string) list" where
  "constants_loop [] v constants = constants"
| "constants_loop (Name i # rest) v constants =
     (if isupper i then constants_loop rest v (constants @ [(i, get_node_value v)])
      else constants_loop rest v constants)"
| "constants_loop (target # rest) v constants = constants_loop rest v constants"

fun module_body_loop :: "stmt list \<Rightarrow> module_info \<Rightarrow> py_error + module_info" where
  "module_body_loop [] info = Inr info"
| "module_body_loop (FunctionDef node # rest) info =
     module_body_loop rest (info\<lparr>mi_functions := mi_functions info @ [analyze_function node]\<rparr>)"
| "module_body_loop (ClassDef cname bases body doc # rest) info =
     (case analyze_class cname bases body doc of
        Inl e \<Rightarrow> Inl e
      | Inr c \<Rightarrow> module_body_loop rest (info\<lparr>mi_classes := mi_classes info @ [c]\<rparr>))"
| "module_body_loop (Assign targets v # rest) info =
     module_body_loop rest (info\<lparr>mi_constants := constants_loop targets v (mi_constants info)\<rparr>)"
| "module_body_loop (node # rest) info = module_body_loop rest info"

text \<open>
  A module file: the stem of its path, the parts of the path without suffix, and the
  outcome of reading and parsing it (the exception of \<^verbatim>\<open>ast.parse\<close>, or \<^verbatim>\<open>tree.body\<close>).
\<close>

record module_file =
  mf_stem :: string
  mf_parts :: "string list"
  mf_parse :: "py_error + stmt list"

definition get_import_path :: "string list \<Rightarrow> string" where
  "get_import_path parts =
     join ''.'' (if parts \<noteq> [] \<and> hd parts \<in> set [''src'', ''lib'', ''app''] then tl parts else parts)"

definition degraded_module :: "module_file \<Rightarrow> py_error \<Rightarrow> module_info" where
  "degraded_module file e =
     \<lparr>mi_name = mf_stem file, mi_import_path = mf_stem file, mi_error = Some e,
      mi_functions = [], mi_classes = [], mi_imports = [], mi_constants = []\<rparr>"

definition analyze_module :: "module_file \<Rightarrow> module_info" where
  "analyze_module file =
     (case mf_parse file of
        Inl e \<Rightarrow> degraded_module file e
      | Inr body \<Rightarrow>
          let module_info = \<lparr>mi_name = mf_stem file,
                             mi_import_path = get_import_path (mf_parts file),
                             mi_error = None,
                             mi_functions = [], mi_classes = [], mi_imports = [],
                             mi_constants = []\<rparr>;
              module_info1 = module_info\<lparr>mi_imports := imports_loop body []\<rparr>
          in (case module_body_loop body module_info1 of
                Inl e \<Rightarrow> degraded_module file e
              | Inr module_info2 \<Rightarrow> module_info2))"

section \<open>Test creation framework: templates\<close>

text \<open>
  The configuration of the generator. Its fields carry the prefix \<open>tc_\<close>, two of them
  having the names of fields of the validator's configuration.
\<close>

record TestCreationConfig =
  tc_output_directory :: string
  tc_test_file_prefix :: string
  tc_include_error_scenarios :: bool
  tc_include_edge_cases :: bool
  tc_include_performance_tests :: bool
  tc_include_integration_tests :: bool
  tc_min_assertions_per_test :: int
  tc_max_test_length :: int
  tc_include_docstrings :: bool
  tc_auto_generate_mocks :: bool
  tc_mock_external_dependencies :: bool
  tc_mock_database_operations :: bool
  tc_generate_realistic_data :: bool
  tc_include_boundary_values :: bool
  tc_include_negative_cases :: bool

definition TestCreationConfig0 :: TestCreationConfig where
  "TestCreationConfig0 =
     \<lparr>tc_output_directory = ''tests'', tc_test_file_prefix = ''test_'',
      tc_include_error_scenarios = True, tc_include_edge_cases = True,
      tc_include_performance_tests = False, tc_include_integration_tests = True,
      tc_min_assertions_per_test = 2, tc_max_test_length = 50, tc_include_docstrings = True,
      tc_auto_generate_mocks = True, tc_mock_external_dependencies = True,
      tc_mock_database_operations = True, tc_generate_realistic_data = True,
      tc_include_boundary_values = True, tc_include_negative_cases = True\<rparr>"

text \<open>
  The parameter dictionaries come from \<^verbatim>\<open>_analyze_function\<close>, where the key \<^verbatim>\<open>type\<close>
  always exists, so \<^verbatim>\<open>param.get("type", "str")\<close> is the stored value. For a parameter
  without annotation that value is \<^verbatim>\<open>None\<close>, and \<^verbatim>\<open>.lower()\<close> on it raises
  \<^verbatim>\<open>AttributeError\<close>.
\<close>

definition get_type_lower :: "param_info \<Rightarrow> py_error + string" where
  "get_type_lower param = (case pi_type param of None \<Rightarrow> Inl AttributeError | Some t \<Rightarrow> Inr (lower t))"

fun basic_params_loop :: "param_info list \<Rightarrow> string list \<Rightarrow> string list
     \<Rightarrow> py_error + string list \<times> string list" where
  "basic_params_loop [] param_assignments param_names = Inr (param_assignments, param_names)"
| "basic_params_loop (param # rest) param_assignments param_names =
     (let param_name = pi_name param;
          param_names1 = param_names @ [param_name]
      in case get_type_lower param of
           Inl e \<Rightarrow> Inl e
         | Inr param_type \<Rightarrow>
             if contains param_type ''int'' \<or> contains param_type ''number''
             then basic_params_loop rest
                    (param_assignments @ [''        '' @ param_name @ '' = 1'']) param_names1
             else if contains param_type ''float'' \<or> contains param_type ''decimal''
             then basic_params_loop rest
                    (param_assignments @ [''        '' @ param_name @ '' = 1.0'']) param_names1
             else if contains param_type ''bool''
             then basic_params_loop rest
                    (param_assignments @ [''        '' @ param_name @ '' = True'']) param_names1
             else if contains param_type ''list'' \<or> contains param_type ''array''
             then basic_params_loop rest
                    (param_assignments @ [''        '' @ param_name @ '' = []'']) param_names1
             else if contains param_type ''dict'' \<or> contains param_type ''object''
             then basic_params_loop rest
                    (param_assignments @ [''        '' @ param_name @ '' = {}'']) param_names1
             else basic_params_loop rest
                    (param_assignments @ [''        '' @ param_name @ '' = 'test_value'' @ [CHR 0x27]])
                    param_names1)"

definition generate_basic_function_test :: "string \<Rightarrow> param_info list \<Rightarrow> TestCreationConfig
     \<Rightarrow> py_error + string" where
  "generate_basic_function_test func_name params config =
     (if params = []
      then Inr (''        # Test with no parameters'' @ nl
                @ ''        result = '' @ func_name @ ''()'' @ nl
                @ ''        assert result is not None'' @ nl
                @ ''        assert isinstance(result, expected_type)  # Replace with actual expected type'')
      else case basic_params_loop (take 3 params) [] [] of
             Inl e \<Rightarrow> Inl e
           | Inr (param_assignments, param_names) \<Rightarrow>
               let param_call = join '', '' param_names
               in Inr (''        # Test with valid parameters'' @ nl
                       @ join nl param_assignments @ nl
                       @ ''        result = '' @ func_name @ ''('' @ param_call @ '')'' @ nl
                       @ ''        '' @ nl
                       @ ''        # Add assertions based on expected behavior'' @ nl
                       @ ''        assert result is not None'' @ nl
                       @ ''        # TODO: Add specific assertions for '' @ func_name @ '' functionality'' @ nl
                       @ ''        # assert result.property == expected_value''))"

text \<open>
  The assignment line that the loop of \<^verbatim>\<open>_generate_basic_function_test\<close> appends for a
  parameter with a type label: the branches of the source in their order, each a
  substring test on the lower-cased label, the first that matches deciding. A label that
  matches an earlier branch never reaches a later one: \<^verbatim>\<open>List[int]\<close> contains
  \<^verbatim>\<open>int\<close> and gets 1.
\<close>

definition stub_assignment :: "param_info \<Rightarrow> string" where
  "stub_assignment p =
     (let param_type = lower (case pi_type p of Some t \<Rightarrow> t | None \<Rightarrow> [])
      in ''        '' @ pi_name p @ '' = '' @
         (if contains param_type ''int'' \<or> contains param_type ''number'' then ''1''
          else if contains param_type ''float'' \<or> contains param_type ''decimal'' then ''1.0''
          else if contains param_type ''bool'' then ''True''
          else if contains param_type ''list'' \<or> contains param_type ''array'' then ''[]''
          else if contains param_type ''dict'' \<or> contains param_type ''object'' then ''{}''
          else [CHR 0x27] @ ''test_value'' @ [CHR 0x27]))"

section \<open>Concrete inputs\<close>

text \<open>
  A file that does not parse, and the test functions of the scenarios. The nodes are as
  \<^verbatim>\<open>ast.parse\<close> builds them: they have no \<^verbatim>\<open>docstring\<close> attribute.
\<close>

definition unparsable_file :: test_file where
  "unparsable_file = \<lparr>tf_path = ''tests/test_broken.py'', tf_parse = Inl SyntaxError\<rparr>"

definition helper_only_file :: test_file where
  "helper_only_file =
     \<lparr>tf_path = ''tests/test_helpers.py'',
      tf_parse = Inr [\<lparr>name = ''make_order'', args = [], returns = None, decorator_list = [],
                       lineno = 1, end_lineno = Some 3, walk = [KOther, KCall],
                       segment = Some ''def make_order(): return Order()'',
                       get_docstring = None, docstring_attr = None\<rparr>]\<rparr>"

text \<open>
  \<^verbatim>\<open>def test_calculate_total():\<close> with a docstring, two assertions and thirteen lines.
\<close>

definition documented_test :: funcdef where
  "documented_test =
     \<lparr>name = ''test_calculate_total'', args = [], returns = None, decorator_list = [],
      lineno = 1, end_lineno = Some 13, walk = [KOther, KAssert, KCall, KAssert],
      segment = Some (''def test_calculate_total():'' @ [CHR 0x0A]
                      @ ''    assert calculate_total([1, 2]) == 3''),
      get_docstring = Some ''Verify that the total is calculated correctly.'',
      docstring_attr = None\<rparr>"

definition documented_file :: test_file where
  "documented_file = \<lparr>tf_path = ''tests/test_totals.py'', tf_parse = Inr [documented_test]\<rparr>"

text \<open>Scenario A: one assertion, eight lines, no docstring.\<close>

definition scenario_a_test :: funcdef where
  "scenario_a_test =
     \<lparr>name = ''test_calculate_total'', args = [], returns = None, decorator_list = [],
      lineno = 1, end_lineno = Some 8, walk = [KOther, KCall, KAssert, KOther],
      segment = Some (''def test_calculate_total():'' @ [CHR 0x0A] @ ''    assert result == 5''),
      get_docstring = None, docstring_attr = None\<rparr>"

definition scenario_a_file :: test_file where
  "scenario_a_file = \<lparr>tf_path = ''tests/test_total.py'', tf_parse = Inr [scenario_a_test]\<rparr>"

definition scenario_a_config :: TestQualityConfig where
  "scenario_a_config = TestQualityConfig0\<lparr>min_assertions_per_test := 2, min_test_length := 10\<rparr>"

text \<open>\<^verbatim>\<open>def test_foo():\<close> spanning lines 1 to 11, so that \<open>func_lines\<close> is 10.\<close>

definition test_foo :: funcdef where
  "test_foo =
     \<lparr>name = ''test_foo'', args = [], returns = None, decorator_list = [],
      lineno = 1, end_lineno = Some 11, walk = [KOther, KAssert], segment = None,
      get_docstring = None, docstring_attr = None\<rparr>"

text \<open>
  The unweighted arithmetic mean, as the specification words the aggregate.
\<close>

definition arithmetic_mean :: "real list \<Rightarrow> real" where
  "arithmetic_mean xs = sum_list xs / real (length xs)"

text \<open>\<^verbatim>\<open>def add(a: int, b: int) -> int\<close> of scenario B.\<close>

definition add_def :: funcdef where
  "add_def =
     \<lparr>name = ''add'',
      args = [(''a'', Some (Name ''int'')), (''b'', Some (Name ''int''))],
      returns = Some (Name ''int''), decorator_list = [],
      lineno = 1, end_lineno = Some 2, walk = [KOther], segment = None,
      get_docstring = None, docstring_attr = None\<rparr>"

text \<open>\<^verbatim>\<open>def total(a: int, b: int, c: int, d: int) -> int\<close>, a function of four parameters.\<close>

definition total_def :: funcdef where
  "total_def =
     \<lparr>name = ''total'',
      args = [(''a'', Some (Name ''int'')), (''b'', Some (Name ''int'')),
              (''c'', Some (Name ''int'')), (''d'', Some (Name ''int''))],
      returns = Some (Name ''int''), decorator_list = [],
      lineno = 1, end_lineno = Some 2, walk = [KOther], segment = None,
      get_docstring = None, docstring_attr = None\<rparr>"

text \<open>\<^verbatim>\<open>def first(xs: List[int]) -> int\<close>, a function with a list parameter.\<close>

definition first_def :: funcdef where
  "first_def =
     \<lparr>name = ''first'',
      args = [(''xs'', Some (Subscript (Name ''List'') (Name ''int'')))],
      returns = Some (Name ''int''), decorator_list = [],
      lineno = 1, end_lineno = Some 2, walk = [KOther], segment = None,
      get_docstring = None, docstring_attr = None\<rparr>"

text \<open>\<^verbatim>\<open>def now()\<close>, a function without parameters.\<close>

definition now_def :: funcdef where
  "now_def =
     \<lparr>name = ''now'', args = [], returns = None, decorator_list = [],
      lineno = 1, end_lineno = Some 2, walk = [KOther], segment = None,
      get_docstring = None, docstring_attr = None\<rparr>"

text \<open>\<^verbatim>\<open>def greet(who)\<close>, a function whose parameter has no annotation.\<close>

definition greet_def :: funcdef where
  "greet_def =
     \<lparr>name = ''greet'', args = [(''who'', None)], returns = None, decorator_list = [],
      lineno = 1, end_lineno = Some 2, walk = [KOther], segment = None,
      get_docstring = None, docstring_attr = None\<rparr>"

text \<open>
  A module \<^verbatim>\<open>src/settings.py\<close> whose text is
  \<^verbatim>\<open>class Settings:\<close> with the one body line \<^verbatim>\<open>retries = 3\<close>.
\<close>

definition settings_module :: module_file where
  "settings_module =
     \<lparr>mf_stem = ''settings'', mf_parts = [''src'', ''settings''],
      mf_parse = Inr [ClassDef ''Settings'' []
                        [Assign [Name ''retries''] (Constant (PyConst ''3'' ''3''))] None]\<rparr>"

section \<open>Properties of the quality validator\<close>

subsection \<open>Auxiliary facts\<close>

lemma percentage_ok:
  "percentage k n = Inr (if n > 0 then real k / real n * 100 else 0)"
  by (simp add: percentage_def py_truediv_def)

lemma structure_loop_no_tests:
  "filter is_test fs = [] \<Longrightarrow> structure_loop cfg path fs issues = issues"
  by (induction fs) (auto split: if_splits)

lemma business_logic_loop_no_tests:
  "filter is_test fs = [] \<Longrightarrow> business_logic_loop fs k = k"
  by (induction fs) (auto split: if_splits)

lemma error_loop_no_tests:
  "filter is_test fs = [] \<Longrightarrow> error_loop fs k = k"
  by (induction fs) (auto split: if_splits)

lemma mock_loop_no_tests:
  "filter is_test fs = [] \<Longrightarrow> mock_loop cfg path fs k issues = (k, issues)"
  by (induction fs) (auto split: if_splits)

lemma documentation_loop_no_tests:
  "filter is_test fs = [] \<Longrightarrow> documentation_loop path fs k issues = (None, k, issues)"
  by (induction fs) (auto split: if_splits)

lemma maintainability_loop_no_tests:
  "filter is_test fs = [] \<Longrightarrow> maintainability_loop cfg path fs k issues = (k, issues)"
  by (induction fs) (auto split: if_splits)

lemmas no_tests_simps = structure_loop_no_tests business_logic_loop_no_tests error_loop_no_tests
  mock_loop_no_tests documentation_loop_no_tests maintainability_loop_no_tests

lemmas pass_defs = analyze_test_structure_def analyze_business_logic_coverage_def
  analyze_error_scenarios_def analyze_mock_usage_def analyze_documentation_def
  analyze_maintainability_def

lemma run_passes_no_tests:
  assumes "filter is_test tree = []"
  shows "run_passes cfg path tree =
     (None, QualityMetrics0,
      if 0 < min_business_logic_threshold cfg
      then [\<lparr>file_path = path, line_number = 1,
              issue_type = ''low_business_logic_coverage'', severity = ''high''\<rparr>]
      else [])"
  using assms
  by (simp add: run_passes_def then_pass_def pass_defs no_tests_simps percentage_ok total_tests_def
      QualityMetrics0_def)

lemma analyze_test_file_unparsable:
  "analyze_test_file cfg \<lparr>tf_path = p, tf_parse = Inl e\<rparr> = Inl UnboundLocalError"
  by (simp add: analyze_test_file_def except_handler_def)

lemma is_test_underscore:
  assumes "is_test f"
  shows "name f \<noteq> [] \<and> contains (name f) ''_''"
proof -
  from assms obtain r where "name f = ''test_'' @ r"
    unfolding is_test_def startswith_def
    by (metis append_take_drop_id length_Cons list.size(3))
  then show ?thesis by (simp add: startswith_def)
qed

lemma totals_loop_fields:
  "business_logic_coverage (totals_loop ms t) = business_logic_coverage t + sum_list (map business_logic_coverage ms)"
  "error_scenario_coverage (totals_loop ms t) = error_scenario_coverage t + sum_list (map error_scenario_coverage ms)"
  "mock_isolation_score (totals_loop ms t) = mock_isolation_score t + sum_list (map mock_isolation_score ms)"
  "realistic_data_score (totals_loop ms t) = realistic_data_score t + sum_list (map realistic_data_score ms)"
  "documentation_score (totals_loop ms t) = documentation_score t + sum_list (map documentation_score ms)"
  "maintenance_score (totals_loop ms t) = maintenance_score t + sum_list (map maintenance_score ms)"
  "overall_quality_score (totals_loop ms t) = overall_quality_score t + sum_list (map overall_quality_score ms)"
  by (induction ms arbitrary: t; simp)+

subsection \<open>Unparsable files\<close>

text \<open>
  C1. The claim: for a file that cannot be parsed, \<^verbatim>\<open>analyze_test_file\<close> returns empty
  metrics and exactly one \<^verbatim>\<open>analysis_error\<close> issue of severity high without raising, and
  \<^verbatim>\<open>analyze_project\<close> goes on with the remaining files. The code does not do this: when
  \<^verbatim>\<open>ast.parse\<close> raises, the handler appends to the local variable \<^verbatim>\<open>issues\<close>, which is
  not bound yet, so \<^verbatim>\<open>UnboundLocalError\<close> leaves \<^verbatim>\<open>analyze_test_file\<close>, and with it
  \<^verbatim>\<open>analyze_project\<close>, whatever files follow. The theorem evaluates both functions at an
  unparsable file.
\<close>

theorem unparsable_file_raises:
  "analyze_test_file cfg unparsable_file = Inl UnboundLocalError
   \<and> analyze_project cfg (unparsable_file # rest) = Inl UnboundLocalError"
  by (simp add: unparsable_file_def analyze_project_def analyze_test_file_unparsable)

subsection \<open>Documentation pass\<close>

text \<open>
  C2. The claim: a test function counts as documented exactly when it has a docstring of
  more than 20 characters containing one of test, verify, check, ensure; every other test
  function gets a \<^verbatim>\<open>missing_documentation\<close> issue of severity low; the score is the
  documented percentage. The code reads the attribute \<^verbatim>\<open>func.docstring\<close>, which a node
  built by \<^verbatim>\<open>ast.parse\<close> does not have, instead of calling \<^verbatim>\<open>ast.get_docstring\<close>. So the
  pass raises \<^verbatim>\<open>AttributeError\<close> at the first test function, whatever its docstring, and
  the file analysis ends in its exception handler: for a file whose only test function
  has a qualifying docstring the result is the empty metrics (documentation score 0, not
  100) with one \<^verbatim>\<open>analysis_error\<close> issue, and no \<^verbatim>\<open>missing_documentation\<close> issue is ever
  produced for a parsed file.
\<close>

theorem documentation_pass_raises:
  "documentation_loop path (f\<lparr>name := ''test_'' @ n, docstring_attr := None\<rparr> # fs) k issues
     = (Some AttributeError, k, issues)
   \<and> well_documented (get_docstring documented_test)
   \<and> analyze_test_file TestQualityConfig0 documented_file
     = Inr (QualityMetrics0, [analysis_error_issue ''tests/test_totals.py''])"
proof (intro conjI)
  show "documentation_loop path (f\<lparr>name := ''test_'' @ n, docstring_attr := None\<rparr> # fs) k issues
     = (Some AttributeError, k, issues)"
    by (simp add: is_test_def startswith_def)
  show "well_documented (get_docstring documented_test)"
    by (simp add: documented_test_def well_documented_def strip_def is_space_def any_in_def
        doc_keywords_def lower_def lower_char_def startswith_def)
  show "analyze_test_file TestQualityConfig0 documented_file
     = Inr (QualityMetrics0, [analysis_error_issue ''tests/test_totals.py''])"
    by (simp add: analyze_test_file_def documented_file_def run_passes_def then_pass_def pass_defs
        documented_test_def is_test_def startswith_def func_lines_def TestQualityConfig0_def
        percentage_ok total_tests_def any_in_def business_logic_indicators_def lower_def
        lower_char_def func_content_def error_indicators_def mock_count_def mock_indicators_def
        except_handler_def)
qed

subsection \<open>Overall score\<close>

text \<open>
  C3. The claim: for every configuration of the six weights, negative ones included, and
  every metrics value the overall score lies in [0, 100]. The code caps the weighted sum
  at 100 and has no lower bound: with a weight of -1 on a business-logic coverage of 100
  the score is -100.
\<close>

theorem overall_score_negative_counterexample:
  "\<not> (0 \<le> calculate_overall_score
              (TestQualityConfig0\<lparr>business_logic_weight := - 1\<rparr>)
              (QualityMetrics0\<lparr>business_logic_coverage := 100\<rparr>)
      \<and> calculate_overall_score
              (TestQualityConfig0\<lparr>business_logic_weight := - 1\<rparr>)
              (QualityMetrics0\<lparr>business_logic_coverage := 100\<rparr>) \<le> 100)"
  by (simp add: calculate_overall_score_def weighted_metrics_def TestQualityConfig0_def
      QualityMetrics0_def)

text \<open>
  C3, amended: for every configuration whose six weights are finite numbers and every
  metrics value whose entries are finite numbers, the weighted sum being computed without
  overflow, the overall score is at most 100; it is at least 0 when no weight and no
  metric is negative. (The reals of the model are the finite floats. A weight that is
  infinite or NaN is not covered: its product with a metric of 0 is NaN, and
  \<^verbatim>\<open>min(score, 100.0)\<close> returns a NaN score as it is.)
\<close>

theorem overall_score_bounds:
  "calculate_overall_score cfg m \<le> 100
   \<and> (0 \<le> business_logic_weight cfg \<and> 0 \<le> error_scenario_weight cfg
      \<and> 0 \<le> mock_isolation_weight cfg \<and> 0 \<le> realistic_data_weight cfg
      \<and> 0 \<le> documentation_weight cfg \<and> 0 \<le> maintenance_weight cfg
      \<and> 0 \<le> business_logic_coverage m \<and> 0 \<le> error_scenario_coverage m
      \<and> 0 \<le> mock_isolation_score m \<and> 0 \<le> realistic_data_score m
      \<and> 0 \<le> documentation_score m \<and> 0 \<le> maintenance_score m
      \<longrightarrow> 0 \<le> calculate_overall_score cfg m)"
  by (simp add: calculate_overall_score_def weighted_metrics_def)

theorem overall_score_bounds_witness:
  "calculate_overall_score TestQualityConfig0
       (QualityMetrics0\<lparr>business_logic_coverage := 100, documentation_score := 50\<rparr>) \<le> 100
   \<and> 0 \<le> calculate_overall_score TestQualityConfig0
       (QualityMetrics0\<lparr>business_logic_coverage := 100, documentation_score := 50\<rparr>)"
  using overall_score_bounds [of TestQualityConfig0
      "QualityMetrics0\<lparr>business_logic_coverage := 100, documentation_score := 50\<rparr>"]
  by (simp add: TestQualityConfig0_def QualityMetrics0_def)

subsection \<open>Maintainability pass\<close>

text \<open>
  C5. The claim: a test function is maintainable exactly when its line span is within
  [min_test_length, max_test_length] and its name has an underscore after the
  \<^verbatim>\<open>test_\<close> prefix, so that \<^verbatim>\<open>test_foo\<close> is not counted. The code attempts the
  naming test (\<^verbatim>\<open>func.name and '_' in func.name\<close>, commented as descriptive naming)
  but makes it on the whole name, prefix included, after the pass has already kept only
  names that begin with \<^verbatim>\<open>test_\<close>: the test can never fail. For every input the pass
  counts the test functions whose length is in range, whatever their names, and
  \<^verbatim>\<open>test_foo\<close> with a span of 10 lines, which has no underscore after the prefix, is
  counted, the score being 100.
\<close>

theorem maintainable_naming_check_dead:
  "fst (maintainability_loop cfg path fs k issues) =
     k + length (filter (\<lambda>f. is_test f \<and> min_test_length cfg \<le> func_lines f
                             \<and> func_lines f \<le> max_test_length cfg) fs)
   \<and> \<not> contains (drop (length ''test_'') (name test_foo)) ''_''
   \<and> min_test_length TestQualityConfig0 \<le> func_lines test_foo
   \<and> func_lines test_foo \<le> max_test_length TestQualityConfig0
   \<and> analyze_maintainability TestQualityConfig0 ''tests/test_foo.py'' [test_foo] (QualityMetrics0, [])
     = (None, QualityMetrics0\<lparr>maintenance_score := 100\<rparr>, [])"
proof (intro conjI)
  show "fst (maintainability_loop cfg path fs k issues) =
     k + length (filter (\<lambda>f. is_test f \<and> min_test_length cfg \<le> func_lines f
                             \<and> func_lines f \<le> max_test_length cfg) fs)"
    by (induction fs arbitrary: k issues) (auto dest: is_test_underscore)
  show "\<not> contains (drop (length ''test_'') (name test_foo)) ''_''"
    by (simp add: test_foo_def startswith_def)
  show "min_test_length TestQualityConfig0 \<le> func_lines test_foo"
    by (simp add: test_foo_def func_lines_def TestQualityConfig0_def)
  show "func_lines test_foo \<le> max_test_length TestQualityConfig0"
    by (simp add: test_foo_def func_lines_def TestQualityConfig0_def)
  show "analyze_maintainability TestQualityConfig0 ''tests/test_foo.py'' [test_foo] (QualityMetrics0, [])
     = (None, QualityMetrics0\<lparr>maintenance_score := 100\<rparr>, [])"
    by (simp add: analyze_maintainability_def test_foo_def is_test_def startswith_def func_lines_def
        TestQualityConfig0_def percentage_ok total_tests_def)
qed

subsection \<open>Scenario A\<close>

text \<open>
  C7. A file with the single test function \<^verbatim>\<open>test_calculate_total\<close>, one assert
  statement, a span of eight lines (\<open>func_lines\<close> at most 8, which covers both the
  difference of the line numbers of an eight-line function and a difference of 8) and no
  docstring, analysed with \<^verbatim>\<open>min_assertions_per_test = 2\<close> and \<^verbatim>\<open>min_test_length = 10\<close>:
  the analysis returns, its issues contain \<^verbatim>\<open>insufficient_assertions\<close> and
  \<^verbatim>\<open>test_too_short\<close> for that function, and the documentation score is 0. The function
  has no docstring: the node has no \<^verbatim>\<open>docstring\<close> attribute, or the attribute is \<^verbatim>\<open>None\<close>.
\<close>

theorem scenario_a:
  assumes "tf_parse file = Inr [f]"
    and "name f = ''test_calculate_total''"
    and "length (filter (\<lambda>k. k = KAssert) (walk f)) = 1"
    and "func_lines f \<le> 8"
    and "docstring_attr f = None \<or> docstring_attr f = Some None"
    and "min_assertions_per_test cfg = 2"
    and "min_test_length cfg = 10"
  shows "\<exists>m issues. analyze_test_file cfg file = Inr (m, issues)
     \<and> \<lparr>file_path = tf_path file, line_number = lineno f,
         issue_type = ''insufficient_assertions'', severity = ''medium''\<rparr> \<in> set issues
     \<and> \<lparr>file_path = tf_path file, line_number = lineno f,
         issue_type = ''test_too_short'', severity = ''medium''\<rparr> \<in> set issues
     \<and> documentation_score m = 0"
proof -
  have t: "is_test f"
    using assms(2) by (simp add: is_test_def startswith_def)
  have a: "filter (\<lambda>x. (x = KAssert \<or> x = KCall) \<and> x = KAssert) (walk f)
      = filter (\<lambda>k. k = KAssert) (walk f)"
    by (rule filter_cong) auto
  from assms(5) show ?thesis
  proof
    assume "docstring_attr f = None"
    with t a assms(1,3,4,6,7) show ?thesis
      by (simp add: analyze_test_file_def run_passes_def then_pass_def pass_defs percentage_ok
          total_tests_def except_handler_def QualityMetrics0_def Let_def split: prod.splits)
  next
    assume "docstring_attr f = Some None"
    with t a assms(1,3,4,6,7) show ?thesis
      by (simp add: analyze_test_file_def run_passes_def then_pass_def pass_defs percentage_ok
          total_tests_def except_handler_def QualityMetrics0_def Let_def well_documented_def
          split: prod.splits)
  qed
qed

theorem scenario_a_witness:
  "tf_parse scenario_a_file = Inr [scenario_a_test]
   \<and> name scenario_a_test = ''test_calculate_total''
   \<and> length (filter (\<lambda>k. k = KAssert) (walk scenario_a_test)) = 1
   \<and> func_lines scenario_a_test \<le> 8
   \<and> docstring_attr scenario_a_test = None
   \<and> min_assertions_per_test scenario_a_config = 2
   \<and> min_test_length scenario_a_config = 10
   \<and> (\<exists>m issues. analyze_test_file scenario_a_config scenario_a_file = Inr (m, issues)
        \<and> \<lparr>file_path = tf_path scenario_a_file, line_number = lineno scenario_a_test,
            issue_type = ''insufficient_assertions'', severity = ''medium''\<rparr> \<in> set issues
        \<and> \<lparr>file_path = tf_path scenario_a_file, line_number = lineno scenario_a_test,
            issue_type = ''test_too_short'', severity = ''medium''\<rparr> \<in> set issues
        \<and> documentation_score m = 0)"
proof -
  have h: "tf_parse scenario_a_file = Inr [scenario_a_test]"
      "name scenario_a_test = ''test_calculate_total''"
      "length (filter (\<lambda>k. k = KAssert) (walk scenario_a_test)) = 1"
      "func_lines scenario_a_test \<le> 8"
      "docstring_attr scenario_a_test = None"
      "min_assertions_per_test scenario_a_config = 2"
      "min_test_length scenario_a_config = 10"
    by (simp_all add: scenario_a_file_def scenario_a_test_def scenario_a_config_def func_lines_def)
  from h(5) have d: "docstring_attr scenario_a_test = None \<or> docstring_attr scenario_a_test = Some None"
    by simp
  show ?thesis
    using h scenario_a [OF h(1) h(2) h(3) h(4) d h(6) h(7)] by blast
qed

subsection \<open>Project aggregate\<close>

text \<open>
  The six sub-metrics and the overall score of the aggregate are the unweighted
  arithmetic means of the per-file values.
\<close>

lemma project_metrics_averaged_fields:
  assumes "ms \<noteq> []"
  shows "business_logic_coverage (calculate_project_metrics ms) = arithmetic_mean (map business_logic_coverage ms)"
    and "error_scenario_coverage (calculate_project_metrics ms) = arithmetic_mean (map error_scenario_coverage ms)"
    and "mock_isolation_score (calculate_project_metrics ms) = arithmetic_mean (map mock_isolation_score ms)"
    and "realistic_data_score (calculate_project_metrics ms) = arithmetic_mean (map realistic_data_score ms)"
    and "documentation_score (calculate_project_metrics ms) = arithmetic_mean (map documentation_score ms)"
    and "maintenance_score (calculate_project_metrics ms) = arithmetic_mean (map maintenance_score ms)"
    and "overall_quality_score (calculate_project_metrics ms) = arithmetic_mean (map overall_quality_score ms)"
  using assms
  by (simp_all add: calculate_project_metrics_def arithmetic_mean_def totals_loop_fields
      QualityMetrics0_def Let_def)

text \<open>
  C8. The claim: for every non-empty list of per-file metrics each field of the
  aggregate is the unweighted arithmetic mean of that field over the files, and two files
  with overall scores 95 and 65 give the aggregate 80 and the grade B. The loop under the
  comment \<^verbatim>\<open># Average all metrics\<close> adds up seven of the eight fields of
  \<^verbatim>\<open>QualityMetrics\<close> and the result is built from those seven: the field
  \<^verbatim>\<open>integration_coverage\<close> is left out and stays at its default. For two files with
  integration coverage 40 and 60 the mean is 50 and the aggregate has 0. The scenario of
  the claim holds: overall scores 95 and 65 give 80 and the grade B.
\<close>

theorem integration_coverage_not_averaged:
  "arithmetic_mean (map integration_coverage
       [QualityMetrics0\<lparr>integration_coverage := 40\<rparr>, QualityMetrics0\<lparr>integration_coverage := 60\<rparr>])
     = 50
   \<and> integration_coverage (calculate_project_metrics
       [QualityMetrics0\<lparr>integration_coverage := 40\<rparr>, QualityMetrics0\<lparr>integration_coverage := 60\<rparr>])
     = 0
   \<and> overall_quality_score (calculate_project_metrics
       [QualityMetrics0\<lparr>overall_quality_score := 95\<rparr>, QualityMetrics0\<lparr>overall_quality_score := 65\<rparr>])
     = 80
   \<and> calculate_quality_grade (overall_quality_score (calculate_project_metrics
       [QualityMetrics0\<lparr>overall_quality_score := 95\<rparr>, QualityMetrics0\<lparr>overall_quality_score := 65\<rparr>]))
     = ''B''"
  by (simp add: calculate_project_metrics_def arithmetic_mean_def QualityMetrics0_def Let_def
      calculate_quality_grade_def)

subsection \<open>Files without test functions\<close>

text \<open>
  C9. For every parsable file with no function whose name begins with \<^verbatim>\<open>test_\<close>, no
  analysis pass raises an exception, in particular no \<^verbatim>\<open>ZeroDivisionError\<close>: the six
  passes run to the end with the error component \<open>None\<close>, the analysis returns the
  metrics of the passes with the overall score, not the result of the exception handler,
  the issues hold no \<^verbatim>\<open>analysis_error\<close>, and business_logic_coverage,
  error_scenario_coverage, mock_isolation_score, documentation_score and
  maintenance_score are exactly 0.
\<close>

theorem no_tests_all_zero:
  assumes "tf_parse file = Inr tree" and "filter is_test tree = []"
  shows "\<exists>m issues. run_passes cfg (tf_path file) tree = (None, m, issues)
     \<and> analyze_test_file cfg file
         = Inr (m\<lparr>overall_quality_score := calculate_overall_score cfg m\<rparr>, issues)
     \<and> \<not> list_ex (\<lambda>i. issue_type i = ''analysis_error'') issues
     \<and> business_logic_coverage m = 0 \<and> error_scenario_coverage m = 0
     \<and> mock_isolation_score m = 0 \<and> documentation_score m = 0 \<and> maintenance_score m = 0"
  using assms
  by (simp add: analyze_test_file_def run_passes_no_tests QualityMetrics0_def)

theorem no_tests_all_zero_witness:
  "(\<exists>tree. tf_parse helper_only_file = Inr tree \<and> filter is_test tree = []
      \<and> (\<exists>m issues. run_passes TestQualityConfig0 (tf_path helper_only_file) tree = (None, m, issues)
        \<and> analyze_test_file TestQualityConfig0 helper_only_file
            = Inr (m\<lparr>overall_quality_score := calculate_overall_score TestQualityConfig0 m\<rparr>, issues)
        \<and> \<not> list_ex (\<lambda>i. issue_type i = ''analysis_error'') issues
        \<and> business_logic_coverage m = 0 \<and> error_scenario_coverage m = 0
        \<and> mock_isolation_score m = 0 \<and> documentation_score m = 0 \<and> maintenance_score m = 0))"
proof -
  have h: "tf_parse helper_only_file = Inr (case tf_parse helper_only_file of Inr t \<Rightarrow> t | Inl e \<Rightarrow> [])"
      "filter is_test (case tf_parse helper_only_file of Inr t \<Rightarrow> t | Inl e \<Rightarrow> []) = []"
    by (simp_all add: helper_only_file_def is_test_def startswith_def)
  show ?thesis
    using h no_tests_all_zero [OF h, of TestQualityConfig0] by blast
qed

section \<open>Properties of the test creation framework\<close>

subsection \<open>Auxiliary facts\<close>

lemma properties_loop_error:
  "properties_loop targets v properties = Inl e \<Longrightarrow> e = AttributeError"
  by (induction targets arbitrary: properties) (auto simp: name_attr_def split: if_splits)

lemma properties_loop_name:
  "Name i \<in> set targets \<Longrightarrow> properties_loop targets v properties = Inl AttributeError"
  by (induction targets arbitrary: properties) (auto simp: name_attr_def)

lemma class_body_loop_error:
  "class_body_loop body methods properties = Inl e \<Longrightarrow> e = AttributeError"
  by (induction body methods properties rule: class_body_loop.induct)
     (auto split: sum.splits dest: properties_loop_error)

lemma class_body_loop_name:
  "Assign targets v \<in> set body \<Longrightarrow> Name i \<in> set targets
     \<Longrightarrow> class_body_loop body methods properties = Inl AttributeError"
proof (induction body methods properties rule: class_body_loop.induct)
  case (3 targets' v' rest methods properties)
  then show ?case
    by (auto split: sum.splits dest: properties_loop_error simp: properties_loop_name)
qed auto

lemma analyze_class_error:
  "analyze_class cname bases body doc = Inl e \<Longrightarrow> e = AttributeError"
  by (auto simp: analyze_class_def split: sum.splits dest: class_body_loop_error)

lemma analyze_class_name:
  "Assign targets v \<in> set body \<Longrightarrow> Name i \<in> set targets
     \<Longrightarrow> analyze_class cname bases body doc = Inl AttributeError"
  by (simp add: analyze_class_def class_body_loop_name)

lemma module_body_loop_class:
  "ClassDef cname bases body doc \<in> set stmts
     \<Longrightarrow> analyze_class cname bases body doc = Inl AttributeError
     \<Longrightarrow> module_body_loop stmts info = Inl AttributeError"
proof (induction stmts info rule: module_body_loop.induct)
  case (3 cname' bases' body' doc' rest info)
  then show ?case
    by (auto split: sum.splits dest: analyze_class_error)
qed auto

lemma parameters_loop_types:
  "map pi_type (parameters_loop as acc)
     = map pi_type acc @ map (\<lambda>(a, ann). map_option get_node_type ann) as"
  by (induction as arbitrary: acc) (auto simp: Let_def split: option.splits)

lemma parameters_loop_names:
  "map pi_name (parameters_loop as acc) = map pi_name acc @ map fst as"
  by (induction as arbitrary: acc) (auto simp: Let_def split: option.splits)

lemma basic_params_loop_typed:
  "\<forall>p \<in> set ps. pi_type p \<noteq> None \<Longrightarrow>
   basic_params_loop ps as ns = Inr (as @ map stub_assignment ps, ns @ map pi_name ps)"
  by (induction ps arbitrary: as ns)
     (auto simp: get_type_lower_def stub_assignment_def Let_def)

lemma join_append:
  "xs \<noteq> [] \<Longrightarrow> ys \<noteq> [] \<Longrightarrow> join sep (xs @ ys) = join sep xs @ sep @ join sep ys"
  by (induction sep xs rule: join.induct) (auto simp: neq_Nil_conv)

lemma join_Cons:
  "ys \<noteq> [] \<Longrightarrow> join sep (x # ys) = x @ sep @ join sep ys"
  by (cases ys) auto

lemma add_params:
  "fi_parameters (analyze_function add_def) =
     [\<lparr>pi_name = ''a'', pi_type = Some ''int'', pi_default = None\<rparr>,
      \<lparr>pi_name = ''b'', pi_type = Some ''int'', pi_default = None\<rparr>]"
  by (simp add: analyze_function_def add_def_def)

lemma total_params:
  "fi_parameters (analyze_function total_def) =
     [\<lparr>pi_name = ''a'', pi_type = Some ''int'', pi_default = None\<rparr>,
      \<lparr>pi_name = ''b'', pi_type = Some ''int'', pi_default = None\<rparr>,
      \<lparr>pi_name = ''c'', pi_type = Some ''int'', pi_default = None\<rparr>,
      \<lparr>pi_name = ''d'', pi_type = Some ''int'', pi_default = None\<rparr>]"
  by (simp add: analyze_function_def total_def_def)

lemma first_params:
  "fi_parameters (analyze_function first_def) =
     [\<lparr>pi_name = ''xs'', pi_type = Some ''List[int]'', pi_default = None\<rparr>]"
  by (simp add: analyze_function_def first_def_def)

lemma stub_assignment_int:
  "stub_assignment \<lparr>pi_name = n, pi_type = Some ''int'', pi_default = d\<rparr> = ''        '' @ n @ '' = 1''"
  by (simp add: stub_assignment_def lower_def lower_char_def startswith_def)

subsection \<open>Basic-functionality stub\<close>

text \<open>
  C4. The claim: the basic-functionality stub of a function assigns exactly one literal
  per parameter, chosen by the type label (list or array like gives an empty sequence,
  and so on), then calls the function with those parameters and asserts a non-null
  result. Two things differ in \<^verbatim>\<open>_generate_basic_function_test\<close>. The loop runs over
  \<^verbatim>\<open>params[:3]\<close> only: for \<^verbatim>\<open>def total(a: int, b: int, c: int, d: int)\<close> the stub
  assigns \<open>a\<close>, \<open>b\<close> and \<open>c\<close>, has no assignment for \<open>d\<close>, and calls
  \<^verbatim>\<open>total(a, b, c)\<close>. And the literal is chosen by the first substring test that
  matches, the one for \<^verbatim>\<open>int\<close> coming first: for \<^verbatim>\<open>def first(xs: List[int])\<close> the
  label is \<^verbatim>\<open>List[int]\<close> and the stub assigns \<^verbatim>\<open>xs = 1\<close>, not an empty list.
\<close>

theorem basic_stub_counterexample:
  "map pi_name (fi_parameters (analyze_function total_def)) = [''a'', ''b'', ''c'', ''d'']
   \<and> generate_basic_function_test ''total'' (fi_parameters (analyze_function total_def))
        TestCreationConfig0
     = Inr (join nl
        [''        # Test with valid parameters'',
         ''        a = 1'',
         ''        b = 1'',
         ''        c = 1'',
         ''        result = total(a, b, c)'',
         ''        '',
         ''        # Add assertions based on expected behavior'',
         ''        assert result is not None'',
         ''        # TODO: Add specific assertions for total functionality'',
         ''        # assert result.property == expected_value''])
   \<and> map pi_type (fi_parameters (analyze_function first_def)) = [Some ''List[int]'']
   \<and> generate_basic_function_test ''first'' (fi_parameters (analyze_function first_def))
        TestCreationConfig0
     = Inr (join nl
        [''        # Test with valid parameters'',
         ''        xs = 1'',
         ''        result = first(xs)'',
         ''        '',
         ''        # Add assertions based on expected behavior'',
         ''        assert result is not None'',
         ''        # TODO: Add specific assertions for first functionality'',
         ''        # assert result.property == expected_value''])"
  by (simp add: total_params first_params generate_basic_function_test_def get_type_lower_def
      lower_def lower_char_def startswith_def)

text \<open>
  C4, amended: for every function whose first three parameters, as far as it has them,
  carry a type label, the stub assigns exactly one literal to each of the first three
  parameters, in order, and to no other. The literal is chosen by the first of these
  tests, in this order, that the lower-cased label passes: it contains \<^verbatim>\<open>int\<close> or
  \<^verbatim>\<open>number\<close>, giving 1; it contains \<^verbatim>\<open>float\<close> or \<^verbatim>\<open>decimal\<close>, giving 1.0; it
  contains \<^verbatim>\<open>bool\<close>, giving True; it contains \<^verbatim>\<open>list\<close> or \<^verbatim>\<open>array\<close>, giving an
  empty list; it contains \<^verbatim>\<open>dict\<close> or \<^verbatim>\<open>object\<close>, giving an empty dict; otherwise
  the placeholder string 'test_value'. The stub then calls the function with those (at
  most three) parameters and asserts that the result is not None; a function without
  parameters is called without arguments and the same assertion made. For
  \<^verbatim>\<open>def add(a: int, b: int) -> int\<close> the assignments are \<open>a = 1\<close> and \<open>b = 1\<close>.
\<close>

theorem basic_stub_lines:
  assumes "\<forall>p \<in> set (take 3 params). pi_type p \<noteq> None"
  shows "generate_basic_function_test func_name params config =
     Inr (join nl
       (if params = []
        then [''        # Test with no parameters'',
              ''        result = '' @ func_name @ ''()'',
              ''        assert result is not None'',
              ''        assert isinstance(result, expected_type)  # Replace with actual expected type'']
        else [''        # Test with valid parameters'']
             @ map stub_assignment (take 3 params)
             @ [''        result = '' @ func_name @ ''(''
                  @ join '', '' (map pi_name (take 3 params)) @ '')'',
                ''        '',
                ''        # Add assertions based on expected behavior'',
                ''        assert result is not None'',
                ''        # TODO: Add specific assertions for '' @ func_name @ '' functionality'',
                ''        # assert result.property == expected_value'']))"
proof (cases "params = []")
  case True
  then show ?thesis
    by (simp add: generate_basic_function_test_def)
next
  case False
  then have ne: "map stub_assignment (take 3 params) \<noteq> []"
    by (cases params) auto
  show ?thesis
    using False
    by (simp add: generate_basic_function_test_def basic_params_loop_typed [OF assms]
        join_append [OF ne] join_Cons)
qed

theorem basic_stub_lines_witness:
  "map pi_type (take 3 (fi_parameters (analyze_function add_def))) = [Some ''int'', Some ''int'']
   \<and> generate_basic_function_test ''add'' (fi_parameters (analyze_function add_def))
        TestCreationConfig0
     = Inr (join nl
        [''        # Test with valid parameters'',
         ''        a = 1'',
         ''        b = 1'',
         ''        result = add(a, b)'',
         ''        '',
         ''        # Add assertions based on expected behavior'',
         ''        assert result is not None'',
         ''        # TODO: Add specific assertions for add functionality'',
         ''        # assert result.property == expected_value''])
   \<and> fi_parameters (analyze_function now_def) = []
   \<and> generate_basic_function_test ''now'' (fi_parameters (analyze_function now_def))
        TestCreationConfig0
     = Inr (join nl
        [''        # Test with no parameters'',
         ''        result = now()'',
         ''        assert result is not None'',
         ''        assert isinstance(result, expected_type)  # Replace with actual expected type''])"
proof -
  have h2: "\<forall>p \<in> set (take 3 (fi_parameters (analyze_function add_def))). pi_type p \<noteq> None"
    by (simp add: add_params)
  have h3: "map pi_type (take 3 (fi_parameters (analyze_function add_def))) = [Some ''int'', Some ''int'']"
    by (simp add: add_params)
  have n: "fi_parameters (analyze_function now_def) = []"
    by (simp add: analyze_function_def now_def_def)
  have n2: "\<forall>p \<in> set (take 3 (fi_parameters (analyze_function now_def))). pi_type p \<noteq> None"
    by (simp add: n)
  show ?thesis
    using h3 n basic_stub_lines [OF h2, of "''add''" TestCreationConfig0]
      basic_stub_lines [OF n2, of "''now''" TestCreationConfig0]
    by (simp add: add_params stub_assignment_int)
qed

subsection \<open>Type labels\<close>

text \<open>
  C6. The claim: a parameter's type label is the name of a bare name, Owner.Member for an
  attribute access, Base[Inner] for a subscript, the string form of a constant, and "Any"
  for anything unresolvable, a parameter with no usable annotation included. For a
  parameter without annotation \<^verbatim>\<open>_analyze_function\<close> never calls \<^verbatim>\<open>_get_node_type\<close>;
  the stored type stays \<^verbatim>\<open>None\<close>: \<^verbatim>\<open>def greet(who)\<close> has the parameter types
  \<open>[None]\<close>, not \<open>[Some ''Any'']\<close>.
\<close>

theorem unannotated_parameter_counterexample:
  "map pi_type (fi_parameters (analyze_function greet_def)) = [None]
   \<and> map pi_type (fi_parameters (analyze_function greet_def)) \<noteq> [Some ''Any'']"
  by (simp add: analyze_function_def greet_def_def)

text \<open>
  C6, amended: the label of an annotation is resolved by these rules: a bare name keeps
  its name, an attribute access renders as Owner.Member, a subscript as Base[Inner], a
  constant as its string form, and any other annotation node as "Any"; the parameters of
  the model are the arguments of the function in order, a parameter with an annotation
  has the label of its annotation, and a parameter without annotation has no label (the
  stored type is None).
\<close>

theorem type_label_rules:
  "get_node_type (Name i) = i
   \<and> get_node_type (Attribute owner member) = get_node_type owner @ ''.'' @ member
   \<and> get_node_type (Subscript base inner) = get_node_type base @ ''['' @ get_node_type inner @ '']''
   \<and> get_node_type (Constant c) = const_str c
   \<and> get_node_type (Call f) = ''Any''
   \<and> get_node_type OtherExpr = ''Any''
   \<and> map pi_name (fi_parameters (analyze_function node)) = map fst (args node)
   \<and> map pi_type (fi_parameters (analyze_function node))
       = map (\<lambda>(a, annotation). case annotation of None \<Rightarrow> None
                                  | Some t \<Rightarrow> Some (get_node_type t)) (args node)"
proof -
  have "(\<lambda>(a :: string, ann). map_option get_node_type ann)
      = (\<lambda>(a, annotation). case annotation of None \<Rightarrow> None | Some t \<Rightarrow> Some (get_node_type t))"
    by (auto simp: fun_eq_iff split: option.splits)
  then show ?thesis
    by (simp add: analyze_function_def parameters_loop_types parameters_loop_names)
qed

subsection \<open>Class attributes\<close>

text \<open>
  C10. For every module that parses and has, in its body, a class whose body has an
  assignment with a bare name among its targets (a class-level attribute such as
  \<^verbatim>\<open>x = 1\<close>), \<^verbatim>\<open>analyze_module\<close> returns the degraded model: the name and import path
  are the stem of the file, the error of the exception raised by the class-property
  extraction is embedded, and the lists of functions, classes, imports and constants are
  empty.
\<close>

theorem class_attribute_degrades:
  assumes "mf_parse file = Inr stmts"
    and "ClassDef cname bases body doc \<in> set stmts"
    and "Assign targets v \<in> set body"
    and "Name i \<in> set targets"
  shows "analyze_module file =
     \<lparr>mi_name = mf_stem file, mi_import_path = mf_stem file, mi_error = Some AttributeError,
      mi_functions = [], mi_classes = [], mi_imports = [], mi_constants = []\<rparr>"
  using assms(1)
  by (simp add: analyze_module_def degraded_module_def
      module_body_loop_class [OF assms(2) analyze_class_name [OF assms(3) assms(4)]])

theorem class_attribute_degrades_witness:
  "mf_parse settings_module
     = Inr [ClassDef ''Settings'' [] [Assign [Name ''retries''] (Constant (PyConst ''3'' ''3''))] None]
   \<and> analyze_module settings_module =
     \<lparr>mi_name = ''settings'', mi_import_path = ''settings'', mi_error = Some AttributeError,
      mi_functions = [], mi_classes = [], mi_imports = [], mi_constants = []\<rparr>"
proof -
  have h: "mf_parse settings_module
     = Inr [ClassDef ''Settings'' [] [Assign [Name ''retries''] (Constant (PyConst ''3'' ''3''))] None]"
    by (simp add: settings_module_def)
  show ?thesis
    using h class_attribute_degrades [OF h, of "''Settings''" "[]"
        "[Assign [Name ''retries''] (Constant (PyConst ''3'' ''3''))]" None
        "[Name ''retries'']" "Constant (PyConst ''3'' ''3'')" "''retries''"]
    by (simp add: settings_module_def)
qed

end
